theory Spec2Isabelle
  imports Complex_Main "HOL-Library.Sublist"
begin

section \<open>The dictionary lookup script \<^verbatim>\<open>kklc-sentences.py\<close>\<close>

text \<open>
  The script is one function, \<^verbatim>\<open>fetch_word_data\<close>, and a loop over a hardcoded list of
  words. Everything it does is an effect: a call of \<^verbatim>\<open>requests.get\<close>, a \<^verbatim>\<open>print\<close>,
  a \<^verbatim>\<open>time.sleep\<close>, or an exception. The embedding makes the effects explicit: a run
  yields the list of effects in the order they happen, and either \<open>None\<close> (the code
  returned) or \<open>Some\<close> exception that nothing caught.
\<close>

subsection \<open>Strings\<close>

text \<open>
  A Python \<^verbatim>\<open>str\<close> is a sequence of Unicode code points. The words of the list are
  Japanese, so a character is modelled by its code point. \<open>lit\<close> reads an ASCII literal
  of the source.
\<close>

type_synonym str = "nat list"

definition lit :: "string \<Rightarrow> str" where
  "lit s = map of_char s"

text \<open>\<^verbatim>\<open>s * n\<close> on a string.\<close>

definition str_mul :: "str \<Rightarrow> nat \<Rightarrow> str" where
  "str_mul s n = concat (replicate n s)"

subsection \<open>The constants of the script\<close>

definition API_KEY :: str where
  "API_KEY = lit ''YOUR_API_KEY''"

definition BASE_URL :: str where
  "BASE_URL = lit ''https://api.wordnik.com/v4/word.json/''"

text \<open>
  The five words, as code points: U+98DF U+3079 U+308B, U+98DF, U+98DF U+4E8B,
  U+98DF U+5802, U+98DF U+6B32.
\<close>

definition words :: "str list" where
  "words = [[39135, 12409, 12427], [39135], [39135, 20107], [39135, 22530], [39135, 27442]]"

subsection \<open>Values, exceptions and the outside world\<close>

text \<open>
  What \<^verbatim>\<open>response.json()\<close> returns: the Python objects the \<^verbatim>\<open>json\<close> decoder builds.
  A dictionary keeps its items in insertion order; the keys of a decoded object are
  strings. A float is a rational, an infinity or NaN (the decoder accepts
  \<^verbatim>\<open>Infinity\<close> and \<^verbatim>\<open>NaN\<close>).
\<close>

datatype py_float = Finite rat | Infinite bool | NaN

datatype py_value =
    PyNone
  | PyBool bool
  | PyInt int
  | PyFloat py_float
  | PyStr str
  | PyList "py_value list"
  | PyDict "(str \<times> py_value) list"

text \<open>
  The exceptions that can occur. \<open>RequestException e\<close> is any instance of
  \<^verbatim>\<open>requests.exceptions.RequestException\<close> (of the class or of a subclass), with
  \<open>e\<close> what \<^verbatim>\<open>str\<close> makes of it; this is all the \<^verbatim>\<open>except\<close> clause looks at. The
  others are exceptions outside that class.
\<close>

datatype py_exception =
    RequestException str
  | ValueError str
  | KeyError str
  | TypeError
  | UnicodeEncodeError

text \<open>
  A response object, as far as the script uses it. \<^verbatim>\<open>raise_for_status()\<close> returns, or
  raises an \<^verbatim>\<open>HTTPError\<close>, which is a \<^verbatim>\<open>RequestException\<close>: \<open>Some e\<close>, with \<open>e\<close> its
  description. \<^verbatim>\<open>json()\<close> returns the decoded body or raises. Which class the decoder's
  error has is the library's business: \<^verbatim>\<open>requests\<close> from 2.27 on raises its own
  \<^verbatim>\<open>JSONDecodeError\<close>, a \<^verbatim>\<open>RequestException\<close>; older versions let a plain
  \<^verbatim>\<open>ValueError\<close> through.
\<close>

record response =
  raise_for_status :: "str option"
  json :: "py_exception + py_value"

text \<open>
  The world outside the script. \<open>requests_get k url\<close> is what the call
  \<^verbatim>\<open>requests.get(url)\<close> does when \<open>k\<close> calls were made before it: it raises a
  \<^verbatim>\<open>RequestException\<close> (\<open>Inl\<close>, with its description) or returns a response.
  \<open>builtin_str\<close> is Python's \<^verbatim>\<open>str()\<close> on a value that is not a string.
\<close>

record world =
  requests_get :: "nat \<Rightarrow> str \<Rightarrow> str + response"
  builtin_str :: "py_value \<Rightarrow> str"

datatype event = Get str | Print str | Sleep nat

type_synonym run = "event list \<times> py_exception option"

subsection \<open>Python's operations on values\<close>

text \<open>\<^verbatim>\<open>if data:\<close> tests the truth value of the object.\<close>

fun truthy :: "py_value \<Rightarrow> bool" where
  "truthy PyNone = False"
| "truthy (PyBool b) = b"
| "truthy (PyInt i) = (i \<noteq> 0)"
| "truthy (PyFloat f) = (f \<noteq> Finite 0)"
| "truthy (PyStr s) = (s \<noteq> [])"
| "truthy (PyList xs) = (xs \<noteq> [])"
| "truthy (PyDict kvs) = (kvs \<noteq> [])"

text \<open>
  \<^verbatim>\<open>for definition in data\<close>: a list gives its elements, a dictionary its keys, a
  string its characters; nothing else can be iterated.
\<close>

fun iter :: "py_value \<Rightarrow> py_exception + py_value list" where
  "iter (PyList xs) = Inr xs"
| "iter (PyDict kvs) = Inr (map (\<lambda>kv. PyStr (fst kv)) kvs)"
| "iter (PyStr s) = Inr (map (\<lambda>c. PyStr [c]) s)"
| "iter v = Inl TypeError"

text \<open>
  \<^verbatim>\<open>definition['text']\<close>: subscription with a string key. A dictionary without the key
  raises \<^verbatim>\<open>KeyError\<close>; a list or a string wants an integer, and the rest cannot be
  subscripted at all.
\<close>

fun getitem :: "py_value \<Rightarrow> str \<Rightarrow> py_exception + py_value" where
  "getitem (PyDict kvs) key =
     (case map_of kvs key of None \<Rightarrow> Inl (KeyError key) | Some v \<Rightarrow> Inr v)"
| "getitem v key = Inl TypeError"

text \<open>A replacement field \<^verbatim>\<open>{v}\<close> of an f-string: a string goes in as it is.\<close>

fun format :: "world \<Rightarrow> py_value \<Rightarrow> str" where
  "format W (PyStr s) = s"
| "format W v = builtin_str W v"

subsection \<open>\<^verbatim>\<open>fetch_word_data\<close>\<close>

definition request_url :: "str \<Rightarrow> str" where
  "request_url word = BASE_URL @ word @ lit ''/definitions?api_key='' @ API_KEY"

text \<open>
  Standard output is a UTF-8 stream in strict mode, Python's default. \<^verbatim>\<open>print\<close> raises
  \<^verbatim>\<open>UnicodeEncodeError\<close> on a string that holds a surrogate code point (U+D800 to
  U+DFFF): the encoder refuses it. The JSON decoder makes such a string from a lone
  surrogate escape, so the text of a definition can hold one. The other lines are made
  of the script's literals, one of its words and a description that the library wrote;
  they hold none, and their \<^verbatim>\<open>print\<close> succeeds.
\<close>

definition encodable :: "str \<Rightarrow> bool" where
  "encodable s = list_all (\<lambda>c. c < 55296 \<or> 57343 < c) s"

text \<open>
  The loop over the definitions: it stops at the first exception, from the subscription
  or from the \<^verbatim>\<open>print\<close> of the bullet line.
\<close>

fun for_definitions :: "world \<Rightarrow> py_value list \<Rightarrow> run" where
  "for_definitions W [] = ([], None)"
| "for_definitions W (d # ds) =
     (case getitem d (lit ''text'') of
        Inl ex \<Rightarrow> ([], Some ex)
      | Inr v \<Rightarrow>
         if encodable (lit ''- '' @ format W v) then
           (case for_definitions W ds of
              (t, r) \<Rightarrow> (Print (lit ''- '' @ format W v) # t, r))
         else ([], Some UnicodeEncodeError))"

text \<open>The body of the \<^verbatim>\<open>try\<close>.\<close>

definition try_body :: "world \<Rightarrow> nat \<Rightarrow> str \<Rightarrow> str \<Rightarrow> run" where
  "try_body W k url word =
     (case requests_get W k url of
        Inl e \<Rightarrow> ([Get url], Some (RequestException e))
      | Inr response \<Rightarrow>
         (case raise_for_status response of
            Some e \<Rightarrow> ([Get url], Some (RequestException e))
          | None \<Rightarrow>
             (case json response of
                Inl ex \<Rightarrow> ([Get url], Some ex)
              | Inr data \<Rightarrow>
                 if truthy data then
                   (case iter data of
                      Inl ex \<Rightarrow> ([Get url, Print (lit ''Definitions for '' @ word @ lit '':'')], Some ex)
                    | Inr ds \<Rightarrow>
                       (case for_definitions W ds of
                          (t, r) \<Rightarrow>
                            (Get url # Print (lit ''Definitions for '' @ word @ lit '':'') # t, r)))
                 else ([Get url, Print (lit ''No definitions found for '' @ word @ lit ''.'')], None))))"

text \<open>
  The \<^verbatim>\<open>except\<close> clause catches a \<^verbatim>\<open>RequestException\<close> and prints it; any other
  exception leaves the function.
\<close>

definition fetch_word_data :: "world \<Rightarrow> nat \<Rightarrow> str \<Rightarrow> run" where
  "fetch_word_data W k word =
     (case try_body W k (request_url word) word of
        (t, Some (RequestException e)) \<Rightarrow>
          (t @ [Print (lit ''Error during API request for '' @ word @ lit '': '' @ e)], None)
      | (t, r) \<Rightarrow> (t, r))"

subsection \<open>The main loop\<close>

text \<open>
  \<open>k\<close> counts the calls of \<^verbatim>\<open>requests.get\<close> made so far: one for each word done.
  An exception out of \<^verbatim>\<open>fetch_word_data\<close> ends the program on the spot.
\<close>

fun main_loop :: "world \<Rightarrow> nat \<Rightarrow> str list \<Rightarrow> run" where
  "main_loop W k [] = ([], None)"
| "main_loop W k (word # ws) =
     (case fetch_word_data W k word of
        (t, Some ex) \<Rightarrow> (Print (lit ''Fetching data for '' @ word @ lit ''...'' @ [10]) # t, Some ex)
      | (t, None) \<Rightarrow>
         (case main_loop W (Suc k) ws of
            (t', r) \<Rightarrow>
              (Print (lit ''Fetching data for '' @ word @ lit ''...'' @ [10]) # t
                 @ [Print (str_mul (lit ''='') 50), Sleep 1] @ t', r)))"

definition main :: "world \<Rightarrow> run" where
  "main W = main_loop W 0 words"

text \<open>What a run writes to standard output: \<^verbatim>\<open>print\<close> ends each string with a newline.\<close>

fun stdout :: "event list \<Rightarrow> str" where
  "stdout [] = []"
| "stdout (Print s # t) = s @ [10] @ stdout t"
| "stdout (e # t) = stdout t"

text \<open>The URLs of the requests of a run, in the order they were issued.\<close>

fun gets :: "event list \<Rightarrow> str list" where
  "gets [] = []"
| "gets (Get u # t) = u # gets t"
| "gets (e # t) = gets t"

subsection \<open>Sample responses\<close>

definition resp_ok :: "py_value \<Rightarrow> response" where
  "resp_ok v = \<lparr>raise_for_status = None, json = Inr v\<rparr>"

definition resp_404 :: response where
  "resp_404 = \<lparr>raise_for_status = Some (lit ''404 Client Error: Not Found''), json = Inl (ValueError [])\<rparr>"

definition world_ok :: "py_value \<Rightarrow> world" where
  "world_ok v = \<lparr>requests_get = (\<lambda>k url. Inr (resp_ok v)), builtin_str = (\<lambda>v. [])\<rparr>"

definition world_404 :: world where
  "world_404 = \<lparr>requests_get = (\<lambda>k url. Inr resp_404), builtin_str = (\<lambda>v. [])\<rparr>"

definition apple_definitions :: py_value where
  "apple_definitions =
     PyList [PyDict [(lit ''text'', PyStr (lit ''a fruit''))],
             PyDict [(lit ''text'', PyStr (lit ''a company''))]]"

definition world_offline :: world where
  "world_offline = \<lparr>requests_get = (\<lambda>k url. Inl (lit ''Connection refused'')), builtin_str = (\<lambda>v. [])\<rparr>"

definition resp_bad_json :: "py_exception \<Rightarrow> response" where
  "resp_bad_json ex = \<lparr>raise_for_status = None, json = Inl ex\<rparr>"

definition world_bad_json :: "py_exception \<Rightarrow> world" where
  "world_bad_json ex = \<lparr>requests_get = (\<lambda>k url. Inr (resp_bad_json ex)), builtin_str = (\<lambda>v. [])\<rparr>"

subsection \<open>The URL of the request\<close>

text \<open>
  Modelled from the spec: the escaping of the request URL. The script builds a string
  and hands it to \<^verbatim>\<open>requests.get\<close>; the URL of the request is made from it by the HTTP
  client, which is not in the repository. The specification has the word URL-escaped
  in the request: percent-encoding (RFC 3986), every character replaced by a percent
  sign and two hexadecimal digits for each byte of its UTF-8 encoding.
\<close>

definition utf8 :: "nat \<Rightarrow> nat list" where
  "utf8 c =
     (if c < 128 then [c]
      else if c < 2048 then [192 + c div 64, 128 + c mod 64]
      else if c < 65536 then [224 + c div 4096, 128 + c div 64 mod 64, 128 + c mod 64]
      else [240 + c div 262144, 128 + c div 4096 mod 64, 128 + c div 64 mod 64, 128 + c mod 64])"

definition hex_digit :: "nat \<Rightarrow> nat" where
  "hex_digit d = (if d < 10 then 48 + d else 55 + d)"

definition percent_encode :: "nat \<Rightarrow> str" where
  "percent_encode c = concat (map (\<lambda>b. [37, hex_digit (b div 16), hex_digit (b mod 16)]) (utf8 c))"

text \<open>The unreserved characters: letters, digits, hyphen, full stop, underscore and tilde.\<close>

definition unreserved :: "nat \<Rightarrow> bool" where
  "unreserved c =
     ((65 \<le> c \<and> c \<le> 90) \<or> (97 \<le> c \<and> c \<le> 122) \<or> (48 \<le> c \<and> c \<le> 57) \<or>
      c = 45 \<or> c = 46 \<or> c = 95 \<or> c = 126)"

text \<open>
  The reserved characters, which delimit the parts of a URL:
  \<^verbatim>\<open>! # $ & ' ( ) * + , / : ; = ? @ [ ]\<close>.
\<close>

definition reserved :: "nat \<Rightarrow> bool" where
  "reserved c =
     (c = 33 \<or> c = 35 \<or> c = 36 \<or> c = 38 \<or> c = 39 \<or> c = 40 \<or> c = 41 \<or> c = 42 \<or> c = 43 \<or>
      c = 44 \<or> c = 47 \<or> c = 58 \<or> c = 59 \<or> c = 61 \<or> c = 63 \<or> c = 64 \<or> c = 91 \<or> c = 93)"

text \<open>
  Modelled from the spec: what the HTTP client sends for the string it is given. The
  client gets a whole URL, so it leaves alone what a URL is made of (the unreserved
  and the reserved characters, and the percent sign of an escape that is already
  there) and percent-encodes every other character.
\<close>

definition wire_url :: "str \<Rightarrow> str" where
  "wire_url u =
     concat (map (\<lambda>c. if unreserved c \<or> reserved c \<or> c = 37 then [c] else percent_encode c) u)"

text \<open>
  The URL as the specification words it: the base endpoint, the word URL-escaped (as a
  path segment: every character that is not unreserved is percent-encoded), the path
  segment \<^verbatim>\<open>/definitions\<close> and the API key as query parameter.
\<close>

definition spec_url_escape :: "str \<Rightarrow> str" where
  "spec_url_escape s = concat (map (\<lambda>c. if unreserved c then [c] else percent_encode c) s)"

definition spec_request_url :: "str \<Rightarrow> str" where
  "spec_request_url word = BASE_URL @ spec_url_escape word @ lit ''/definitions?api_key='' @ API_KEY"

section \<open>Properties\<close>

subsection \<open>Auxiliary facts\<close>

lemma encodable_bullet: "encodable (lit ''- '' @ s) = encodable s"
  by (simp add: encodable_def lit_def)

lemma for_definitions_values:
  "list_all2 (\<lambda>r v. \<exists>kvs. r = PyDict kvs \<and> map_of kvs (lit ''text'') = Some v \<and>
                       encodable (format W v)) recs vals \<Longrightarrow>
   for_definitions W recs = (map (\<lambda>v. Print (lit ''- '' @ format W v)) vals, None)"
  by (induction rule: list_all2_induct) (auto simp: encodable_bullet)

lemma for_definitions_texts:
  "list_all2 (\<lambda>r s. \<exists>kvs. r = PyDict kvs \<and> map_of kvs (lit ''text'') = Some (PyStr s) \<and>
                       encodable s) recs texts \<Longrightarrow>
   for_definitions W recs = (map (\<lambda>s. Print (lit ''- '' @ s)) texts, None)"
  by (induction rule: list_all2_induct) (auto simp: encodable_bullet)

lemma for_definitions_stops:
  "list_all2 (\<lambda>r v. \<exists>kvs. r = PyDict kvs \<and> map_of kvs (lit ''text'') = Some v \<and>
                       encodable (format W v)) pre vals \<Longrightarrow>
   getitem d (lit ''text'') = Inl ex \<Longrightarrow>
   for_definitions W (pre @ d # post) = (map (\<lambda>v. Print (lit ''- '' @ format W v)) vals, Some ex)"
  by (induction rule: list_all2_induct) (auto simp: encodable_bullet)

lemma for_definitions_events:
  "for_definitions W ds = (t, r) \<Longrightarrow> e \<in> set t \<Longrightarrow> \<exists>s. e = Print (lit ''- '' @ s)"
  by (induction ds arbitrary: t r) (auto split: sum.splits prod.splits if_splits)

lemma for_definitions_gets: "gets (fst (for_definitions W ds)) = []"
  by (induction ds) (auto split: sum.splits prod.splits)

lemma try_body_events:
  "e \<in> set (fst (try_body W k url word)) \<Longrightarrow>
   e = Get url \<or> e = Print (lit ''Definitions for '' @ word @ lit '':'') \<or>
   e = Print (lit ''No definitions found for '' @ word @ lit ''.'') \<or> (\<exists>s. e = Print (lit ''- '' @ s))"
  unfolding try_body_def
  by (auto split: sum.splits option.splits prod.splits if_splits dest: for_definitions_events)

lemma try_body_gets: "gets (fst (try_body W k url word)) = [url]"
  unfolding try_body_def
  by (auto split: sum.splits option.splits prod.splits simp: for_definitions_gets dest: arg_cong [where f = "\<lambda>p. gets (fst p)"])

lemma gets_append: "gets (t @ u) = gets t @ gets u"
  by (induction t rule: gets.induct) auto

lemma fetch_gets: "gets (fst (fetch_word_data W k word)) = [request_url word]"
  using try_body_gets [of W k "request_url word" word]
  unfolding fetch_word_data_def 
  by (auto split: prod.splits option.splits py_exception.splits simp: gets_append)

lemma fetch_events:
  "e \<in> set (fst (fetch_word_data W k word)) \<Longrightarrow>
   e = Get (request_url word) \<or> e = Print (lit ''Definitions for '' @ word @ lit '':'') \<or>
   e = Print (lit ''No definitions found for '' @ word @ lit ''.'') \<or> (\<exists>s. e = Print (lit ''- '' @ s)) \<or>
   (\<exists>s. e = Print (lit ''Error during API request for '' @ word @ lit '': '' @ s))"
  using try_body_events [of e W k "request_url word" word]
  unfolding fetch_word_data_def 
  by (auto split: prod.splits option.splits py_exception.splits)

lemma separator: "str_mul (lit ''='') 50 = lit ''==================================================''"
  by (simp add: str_mul_def lit_def eval_nat_numeral)

lemma fetch_no_separator:
  "Print (lit ''=================================================='') \<notin> set (fst (fetch_word_data W k word))"
  by (auto dest!: fetch_events simp: lit_def)

lemma fetch_no_sleep: "Sleep n \<notin> set (fst (fetch_word_data W k word))"
  by (auto dest!: fetch_events)

lemma wire_url_append: "wire_url (u @ v) = wire_url u @ wire_url v"
  by (simp add: wire_url_def)

lemma wire_url_base: "wire_url BASE_URL = BASE_URL"
  by (simp add: wire_url_def BASE_URL_def lit_def unreserved_def reserved_def)

lemma wire_url_path: "wire_url (lit ''/definitions?api_key='') = lit ''/definitions?api_key=''"
  by (simp add: wire_url_def lit_def unreserved_def reserved_def)

lemma wire_url_key: "wire_url API_KEY = API_KEY"
  by (simp add: wire_url_def API_KEY_def lit_def unreserved_def reserved_def)

lemma wire_url_word:
  "list_all (\<lambda>c. \<not> reserved c \<and> c \<noteq> 37) w \<Longrightarrow> wire_url w = spec_url_escape w"
  by (induction w) (simp_all add: wire_url_def spec_url_escape_def)

lemma wire_request_url:
  "list_all (\<lambda>c. \<not> reserved c \<and> c \<noteq> 37) w \<Longrightarrow> wire_url (request_url w) = spec_request_url w"
  by (simp add: request_url_def spec_request_url_def wire_url_append wire_url_base wire_url_path
      wire_url_key wire_url_word)

lemma stdout_bullets: "stdout (map (\<lambda>s. Print (p @ s)) texts) = concat (map (\<lambda>s. p @ s @ [10]) texts)"
  by (induction texts) auto

lemma main_loop_gets_prefix:
  "prefix (gets (fst (main_loop W k ws))) (map request_url ws)"
proof (induction ws arbitrary: k)
  case Nil
  show ?case by simp
next
  case (Cons w ws)
  show ?case
  proof (cases "snd (fetch_word_data W k w)")
    case None
    then show ?thesis
      using Cons [of "Suc k"] fetch_gets [of W k w]
      by (cases "fetch_word_data W k w"; cases "main_loop W (Suc k) ws") (simp add: gets_append)
  next
    case (Some ex)
    then show ?thesis
      using fetch_gets [of W k w]
      by (cases "fetch_word_data W k w") simp
  qed
qed

lemma main_loop_gets_all:
  "snd (main_loop W k ws) = None \<Longrightarrow> gets (fst (main_loop W k ws)) = map request_url ws"
proof (induction ws arbitrary: k)
  case Nil
  show ?case by simp
next
  case (Cons w ws)
  show ?case
  proof (cases "snd (fetch_word_data W k w)")
    case None
    then show ?thesis
      using Cons.IH [of "Suc k"] Cons.prems fetch_gets [of W k w]
      by (cases "fetch_word_data W k w"; cases "main_loop W (Suc k) ws") (simp add: gets_append)
  next
    case (Some ex)
    then show ?thesis
      using Cons.prems
      by (cases "fetch_word_data W k w") simp
  qed
qed

lemma main_loop_segments:
  "snd (main_loop W k ws) = None \<Longrightarrow>
   fst (main_loop W k ws) =
     concat (map (\<lambda>(i, w). Print (lit ''Fetching data for '' @ w @ lit ''...'' @ [10]) #
                            fst (fetch_word_data W i w) @
                            [Print (lit ''==================================================''), Sleep 1])
                 (enumerate k ws))"
proof (induction ws arbitrary: k)
  case Nil
  show ?case by simp
next
  case (Cons w ws)
  show ?case
  proof (cases "snd (fetch_word_data W k w)")
    case None
    then show ?thesis
      using Cons.IH [of "Suc k"] Cons.prems
      by (cases "fetch_word_data W k w"; cases "main_loop W (Suc k) ws") (simp add: separator)
  next
    case (Some ex)
    then show ?thesis
      using Cons.prems
      by (cases "fetch_word_data W k w") simp
  qed
qed

subsection \<open>Request failures\<close>

text \<open>
  Claim C1. When the request for a word fails, because \<^verbatim>\<open>requests.get\<close> raises (a
  connection error, a timeout) or because \<^verbatim>\<open>raise_for_status\<close> raises for the status
  of the response (a 404, say), the exception is caught. The one line printed for the
  word is the error line, made of the word and of the description of the error; no
  header line and no bullet line is printed. The failure does not end the batch: after
  the separator and the pause, the rest of the run is the run over the remaining words.
\<close>

theorem request_failure_is_caught:
  assumes "requests_get W k (request_url word) = Inl e \<or>
           (\<exists>resp. requests_get W k (request_url word) = Inr resp \<and> raise_for_status resp = Some e)"
  shows "fetch_word_data W k word =
           ([Get (request_url word),
             Print (lit ''Error during API request for '' @ word @ lit '': '' @ e)], None) \<and>
         Print (lit ''Definitions for '' @ word @ lit '':'') \<notin> set (fst (fetch_word_data W k word)) \<and>
         (\<forall>s. Print (lit ''- '' @ s) \<notin> set (fst (fetch_word_data W k word))) \<and>
         main_loop W k (word # ws) =
           (Print (lit ''Fetching data for '' @ word @ lit ''...'' @ [10]) #
            Get (request_url word) #
            Print (lit ''Error during API request for '' @ word @ lit '': '' @ e) #
            Print (lit ''=================================================='') #
            Sleep 1 # fst (main_loop W (Suc k) ws),
            snd (main_loop W (Suc k) ws))"
proof -
  have f: "fetch_word_data W k word =
           ([Get (request_url word),
             Print (lit ''Error during API request for '' @ word @ lit '': '' @ e)], None)"
    using assms by (auto simp: fetch_word_data_def try_body_def)
  have h: "Print (lit ''Definitions for '' @ word @ lit '':'') \<notin> set (fst (fetch_word_data W k word))"
    by (simp add: f) (simp add: lit_def)
  have b: "\<forall>s. Print (lit ''- '' @ s) \<notin> set (fst (fetch_word_data W k word))"
    by (simp add: f) (simp add: lit_def)
  have m: "main_loop W k (word # ws) =
           (Print (lit ''Fetching data for '' @ word @ lit ''...'' @ [10]) #
            Get (request_url word) #
            Print (lit ''Error during API request for '' @ word @ lit '': '' @ e) #
            Print (lit ''=================================================='') #
            Sleep 1 # fst (main_loop W (Suc k) ws),
            snd (main_loop W (Suc k) ws))"
    by (simp add: f separator split: prod.splits)
  show ?thesis by (intro conjI) fact+
qed

text \<open>A world in which every request is answered with status 404.\<close>

theorem request_failure_is_caught_witness:
  "requests_get world_404 0 (request_url (words ! 0)) = Inr resp_404 \<and>
   raise_for_status resp_404 = Some (lit ''404 Client Error: Not Found'') \<and>
   fetch_word_data world_404 0 (words ! 0) =
     ([Get (request_url (words ! 0)),
       Print (lit ''Error during API request for '' @ words ! 0 @ lit '': '' @
              lit ''404 Client Error: Not Found'')], None)"
  using request_failure_is_caught [of world_404 0 "words ! 0" "lit ''404 Client Error: Not Found''" "[]"]
  by (simp add: world_404_def resp_404_def)

subsection \<open>One request for each word\<close>

text \<open>
  Claim C2, with the proviso the code needs. In every run the requests issued are those
  of an initial part of the word list, one for each word and in the order of the list.
  When no exception ends the run they are those of the whole list, and the run is the
  sequence of the words' segments: the announcement, the effects of \<open>fetch_word_data\<close>
  for the word, the separator and the pause. The effects of \<open>fetch_word_data\<close> hold
  exactly one request, so all that a word's response causes comes before the request of
  the next word.
\<close>

theorem requests_follow_the_list:
  "prefix (gets (fst (main_loop W k ws))) (map request_url ws) \<and>
   (snd (main_loop W k ws) = None \<longrightarrow>
      gets (fst (main_loop W k ws)) = map request_url ws \<and>
      fst (main_loop W k ws) =
        concat (map (\<lambda>(i, w). Print (lit ''Fetching data for '' @ w @ lit ''...'' @ [10]) #
                               fst (fetch_word_data W i w) @
                               [Print (lit ''==================================================''), Sleep 1])
                    (enumerate k ws))) \<and>
   (\<forall>i w. gets (fst (fetch_word_data W i w)) = [request_url w])"
  using main_loop_gets_prefix [of W k ws] main_loop_gets_all [of W k ws]
    main_loop_segments [of W k ws] fetch_gets [of W]
  by blast

text \<open>The five words of the script, every request answered with status 404.\<close>

theorem requests_follow_the_list_witness:
  "snd (main_loop world_404 0 words) = None \<and>
   gets (fst (main_loop world_404 0 words)) = map request_url words"
proof -
  have "snd (main_loop world_404 0 words) = None"
    by (simp add: words_def world_404_def resp_404_def fetch_word_data_def try_body_def)
  then show ?thesis
    using requests_follow_the_list [of world_404 0 words] by blast
qed

text \<open>
  Without the proviso the statement fails. When the answer for the first word is a list
  with a record that has no text field, the \<^verbatim>\<open>KeyError\<close> ends the program: one request
  was issued, for five words.
\<close>

theorem all_requests_counterexample:
  "gets (fst (main (world_ok (PyList [PyDict []])))) = [request_url (words ! 0)] \<and>
   gets (fst (main (world_ok (PyList [PyDict []])))) \<noteq> map request_url words"
  by (simp add: main_def words_def world_ok_def resp_ok_def fetch_word_data_def try_body_def)

subsection \<open>The answers\<close>

text \<open>
  Claim C3, with the proviso the code needs. When the request succeeds and the body is a
  list of \<open>N > 0\<close> records, each a dictionary whose text field is a string that standard
  output can encode, \<open>fetch_word_data\<close> prints the header line naming the word and then
  \<open>N\<close> bullet lines: the \<open>i\<close>-th is the bullet prefix and the text of the \<open>i\<close>-th
  record, in the order of the response. Then it returns.
\<close>

theorem definitions_are_listed:
  assumes "requests_get W k (request_url word) = Inr resp"
    and "raise_for_status resp = None"
    and "json resp = Inr (PyList recs)"
    and "recs \<noteq> []"
    and "list_all2 (\<lambda>r s. \<exists>kvs. r = PyDict kvs \<and> map_of kvs (lit ''text'') = Some (PyStr s) \<and>
                            encodable s) recs texts"
  shows "fetch_word_data W k word =
           (Get (request_url word) # Print (lit ''Definitions for '' @ word @ lit '':'') #
            map (\<lambda>s. Print (lit ''- '' @ s)) texts, None) \<and>
         length texts = length recs \<and>
         stdout (fst (fetch_word_data W k word)) =
           lit ''Definitions for '' @ word @ lit '':'' @ [10] @
           concat (map (\<lambda>s. lit ''- '' @ s @ [10]) texts)"
proof -
  have f: "fetch_word_data W k word =
           (Get (request_url word) # Print (lit ''Definitions for '' @ word @ lit '':'') #
            map (\<lambda>s. Print (lit ''- '' @ s)) texts, None)"
    using assms(1-4) for_definitions_texts [OF assms(5), of W]
    by (simp add: fetch_word_data_def try_body_def)
  have l: "length texts = length recs"
    using assms(5) by (simp add: list_all2_lengthD)
  show ?thesis
    by (simp add: f l stdout_bullets)
qed

text \<open>Two records for the word apple.\<close>

theorem definitions_are_listed_witness:
  "requests_get (world_ok apple_definitions) 0 (request_url (lit ''apple'')) = Inr (resp_ok apple_definitions) \<and>
   raise_for_status (resp_ok apple_definitions) = None \<and>
   encodable (lit ''a fruit'') \<and> encodable (lit ''a company'') \<and>
   json (resp_ok apple_definitions) =
     Inr (PyList [PyDict [(lit ''text'', PyStr (lit ''a fruit''))],
                  PyDict [(lit ''text'', PyStr (lit ''a company''))]]) \<and>
   fetch_word_data (world_ok apple_definitions) 0 (lit ''apple'') =
     ([Get (request_url (lit ''apple'')), Print (lit ''Definitions for '' @ lit ''apple'' @ lit '':''),
       Print (lit ''- '' @ lit ''a fruit''), Print (lit ''- '' @ lit ''a company'')], None)"
  using definitions_are_listed [of "world_ok apple_definitions" 0 "lit ''apple''" "resp_ok apple_definitions"
     "[PyDict [(lit ''text'', PyStr (lit ''a fruit''))], PyDict [(lit ''text'', PyStr (lit ''a company''))]]"
     "[lit ''a fruit'', lit ''a company'']"]
  by (simp add: world_ok_def resp_ok_def apple_definitions_def encodable_def lit_def)

text \<open>
  Without the proviso the statement fails. The record's text is the one character
  U+D800, as the decoder makes it from a lone surrogate escape: the header is printed,
  the \<^verbatim>\<open>print\<close> of the bullet raises \<^verbatim>\<open>UnicodeEncodeError\<close>, which is not
  caught, and no bullet line is printed for the one record.
\<close>

theorem unprintable_text_counterexample:
  "fetch_word_data (world_ok (PyList [PyDict [(lit ''text'', PyStr [55296])]])) 0 (words ! 0) =
     ([Get (request_url (words ! 0)), Print (lit ''Definitions for '' @ words ! 0 @ lit '':'')],
      Some UnicodeEncodeError)"
  by (simp add: world_ok_def resp_ok_def fetch_word_data_def try_body_def encodable_def lit_def)

text \<open>
  Claim C4. When the request succeeds and the body is the empty list, the one line
  printed for the word is the message that no definitions were found, naming the word;
  there is no header line and no bullet line.
\<close>

theorem empty_array_no_definitions:
  assumes "requests_get W k (request_url word) = Inr resp"
    and "raise_for_status resp = None"
    and "json resp = Inr (PyList [])"
  shows "fetch_word_data W k word =
           ([Get (request_url word), Print (lit ''No definitions found for '' @ word @ lit ''.'')], None) \<and>
         Print (lit ''Definitions for '' @ word @ lit '':'') \<notin> set (fst (fetch_word_data W k word)) \<and>
         (\<forall>s. Print (lit ''- '' @ s) \<notin> set (fst (fetch_word_data W k word)))"
proof -
  have f: "fetch_word_data W k word =
           ([Get (request_url word), Print (lit ''No definitions found for '' @ word @ lit ''.'')], None)"
    using assms by (simp add: fetch_word_data_def try_body_def)
  have h: "Print (lit ''Definitions for '' @ word @ lit '':'') \<notin> set (fst (fetch_word_data W k word))"
    by (simp add: f) (simp add: lit_def)
  have b: "\<forall>s. Print (lit ''- '' @ s) \<notin> set (fst (fetch_word_data W k word))"
    by (simp add: f) (simp add: lit_def)
  show ?thesis by (intro conjI) fact+
qed

text \<open>The first word of the script, answered with an empty list.\<close>

theorem empty_array_no_definitions_witness:
  "requests_get (world_ok (PyList [])) 0 (request_url (words ! 0)) = Inr (resp_ok (PyList [])) \<and>
   raise_for_status (resp_ok (PyList [])) = None \<and>
   json (resp_ok (PyList [])) = Inr (PyList []) \<and>
   stdout (fst (fetch_word_data (world_ok (PyList [])) 0 (words ! 0))) =
     lit ''No definitions found for '' @ [39135, 12409, 12427] @ lit ''.'' @ [10]"
  using empty_array_no_definitions [of "world_ok (PyList [])" 0 "words ! 0" "resp_ok (PyList [])"]
  by (simp add: world_ok_def resp_ok_def words_def)

subsection \<open>Separator and pause\<close>

text \<open>
  Claim C5, with the proviso the code needs. Whenever \<open>fetch_word_data\<close> returns, the
  program prints the separator of 50 equals signs once and sleeps for 1, and only then
  goes on to the next word; \<open>fetch_word_data\<close> itself never prints the separator and
  never sleeps. It returns when the request fails (either way), when the body is falsy,
  and when the body is a list of records that all have a text field that standard
  output can encode. When it raises instead, the program ends there, with neither
  separator nor pause.
\<close>

theorem separator_and_pause_after_word:
  "(snd (fetch_word_data W k word) = None \<longrightarrow>
      main_loop W k (word # ws) =
        (Print (lit ''Fetching data for '' @ word @ lit ''...'' @ [10]) #
         fst (fetch_word_data W k word) @
         [Print (lit ''==================================================''), Sleep 1] @
         fst (main_loop W (Suc k) ws),
         snd (main_loop W (Suc k) ws))) \<and>
   Print (lit ''=================================================='') \<notin> set (fst (fetch_word_data W k word)) \<and>
   (\<forall>n. Sleep n \<notin> set (fst (fetch_word_data W k word))) \<and>
   (\<forall>e. requests_get W k (request_url word) = Inl e \<longrightarrow> snd (fetch_word_data W k word) = None) \<and>
   (\<forall>resp e. requests_get W k (request_url word) = Inr resp \<and> raise_for_status resp = Some e \<longrightarrow>
      snd (fetch_word_data W k word) = None) \<and>
   (\<forall>resp data. requests_get W k (request_url word) = Inr resp \<and> raise_for_status resp = None \<and>
      json resp = Inr data \<and> \<not> truthy data \<longrightarrow> snd (fetch_word_data W k word) = None) \<and>
   (\<forall>resp recs vals. requests_get W k (request_url word) = Inr resp \<and> raise_for_status resp = None \<and>
      json resp = Inr (PyList recs) \<and>
      list_all2 (\<lambda>r v. \<exists>kvs. r = PyDict kvs \<and> map_of kvs (lit ''text'') = Some v \<and>
                          encodable (format W v)) recs vals \<longrightarrow>
      snd (fetch_word_data W k word) = None) \<and>
   (\<forall>ex. snd (fetch_word_data W k word) = Some ex \<longrightarrow>
      main_loop W k (word # ws) =
        (Print (lit ''Fetching data for '' @ word @ lit ''...'' @ [10]) # fst (fetch_word_data W k word),
         Some ex))"
proof -
  have a: "snd (fetch_word_data W k word) = None \<longrightarrow>
      main_loop W k (word # ws) =
        (Print (lit ''Fetching data for '' @ word @ lit ''...'' @ [10]) #
         fst (fetch_word_data W k word) @
         [Print (lit ''==================================================''), Sleep 1] @
         fst (main_loop W (Suc k) ws),
         snd (main_loop W (Suc k) ws))"
    by (cases "fetch_word_data W k word"; cases "main_loop W (Suc k) ws") (simp add: separator)
  have b: "Print (lit ''=================================================='') \<notin> set (fst (fetch_word_data W k word))"
    by (rule fetch_no_separator)
  have c: "\<forall>n. Sleep n \<notin> set (fst (fetch_word_data W k word))"
    by (simp add: fetch_no_sleep)
  have d: "\<forall>e. requests_get W k (request_url word) = Inl e \<longrightarrow> snd (fetch_word_data W k word) = None"
    by (simp add: fetch_word_data_def try_body_def)
  have e: "\<forall>resp e. requests_get W k (request_url word) = Inr resp \<and> raise_for_status resp = Some e \<longrightarrow>
      snd (fetch_word_data W k word) = None"
    by (simp add: fetch_word_data_def try_body_def)
  have f: "\<forall>resp data. requests_get W k (request_url word) = Inr resp \<and> raise_for_status resp = None \<and>
      json resp = Inr data \<and> \<not> truthy data \<longrightarrow> snd (fetch_word_data W k word) = None"
    by (simp add: fetch_word_data_def try_body_def)
  have g: "\<forall>resp recs vals. requests_get W k (request_url word) = Inr resp \<and> raise_for_status resp = None \<and>
      json resp = Inr (PyList recs) \<and>
      list_all2 (\<lambda>r v. \<exists>kvs. r = PyDict kvs \<and> map_of kvs (lit ''text'') = Some v \<and>
                          encodable (format W v)) recs vals \<longrightarrow>
      snd (fetch_word_data W k word) = None"
    by (auto simp: fetch_word_data_def try_body_def dest: for_definitions_values [where W = W])
  have h: "\<forall>ex. snd (fetch_word_data W k word) = Some ex \<longrightarrow>
      main_loop W k (word # ws) =
        (Print (lit ''Fetching data for '' @ word @ lit ''...'' @ [10]) # fst (fetch_word_data W k word),
         Some ex)"
    by (cases "fetch_word_data W k word") simp
  show ?thesis by (intro conjI) fact+
qed

text \<open>No network: the request for the first word fails, and the separator and the pause follow.\<close>

theorem separator_and_pause_after_word_witness:
  "snd (fetch_word_data world_offline 0 (words ! 0)) = None \<and>
   main_loop world_offline 0 [words ! 0] =
     (Print (lit ''Fetching data for '' @ words ! 0 @ lit ''...'' @ [10]) #
      fst (fetch_word_data world_offline 0 (words ! 0)) @
      [Print (lit ''==================================================''), Sleep 1], None)"
proof -
  have "snd (fetch_word_data world_offline 0 (words ! 0)) = None"
    by (simp add: world_offline_def fetch_word_data_def try_body_def)
  then show ?thesis
    using separator_and_pause_after_word [of world_offline 0 "words ! 0" "[]"] by simp
qed

text \<open>
  The statement fails for a word whose processing fails with an exception that is not
  caught. Here the one record of the answer has no text field: no separator is printed
  and the program does not pause.
\<close>

theorem separator_counterexample:
  "snd (fetch_word_data (world_ok (PyList [PyDict []])) 0 (lit ''apple'')) = Some (KeyError (lit ''text'')) \<and>
   Print (lit ''=================================================='')
     \<notin> set (fst (main_loop (world_ok (PyList [PyDict []])) 0 [lit ''apple''])) \<and>
   Sleep 1 \<notin> set (fst (main_loop (world_ok (PyList [PyDict []])) 0 [lit ''apple'']))"
  by (simp add: world_ok_def resp_ok_def fetch_word_data_def try_body_def) (simp add: lit_def)

subsection \<open>The request URL\<close>

text \<open>
  Claim C6. The script hands to \<^verbatim>\<open>requests.get\<close> the base endpoint, the word, the path
  segment \<^verbatim>\<open>/definitions\<close> and the API key as the query parameter \<^verbatim>\<open>api_key\<close>, in
  one string; the URL of the request is that string as the HTTP client escapes it. For
  each of the five words of the script it is the base endpoint, then the word
  URL-escaped, then \<^verbatim>\<open>/definitions\<close> and the key. So it is for the one request that
  \<open>fetch_word_data\<close> issues for any word that holds no reserved character and no percent
  sign.
\<close>

theorem request_url_on_the_wire:
  "map (\<lambda>w. wire_url (request_url w)) words = map spec_request_url words \<and>
   (list_all (\<lambda>c. \<not> reserved c \<and> c \<noteq> 37) word \<longrightarrow>
      map wire_url (gets (fst (fetch_word_data W k word))) =
        [BASE_URL @ spec_url_escape word @ lit ''/definitions?api_key='' @ API_KEY]) \<and>
   gets (fst (fetch_word_data W k word)) =
     [lit ''https://api.wordnik.com/v4/word.json/'' @ word @ lit ''/definitions?api_key=YOUR_API_KEY'']"
proof -
  have five: "\<forall>w\<in>set words. list_all (\<lambda>c. \<not> reserved c \<and> c \<noteq> 37) w"
    by (simp add: words_def reserved_def)
  have a: "map (\<lambda>w. wire_url (request_url w)) words = map spec_request_url words"
    using five by (simp add: wire_request_url)
  have b: "list_all (\<lambda>c. \<not> reserved c \<and> c \<noteq> 37) word \<longrightarrow>
      map wire_url (gets (fst (fetch_word_data W k word))) =
        [BASE_URL @ spec_url_escape word @ lit ''/definitions?api_key='' @ API_KEY]"
    using wire_request_url [of word] by (simp add: fetch_gets spec_request_url_def)
  have c: "gets (fst (fetch_word_data W k word)) =
     [lit ''https://api.wordnik.com/v4/word.json/'' @ word @ lit ''/definitions?api_key=YOUR_API_KEY'']"
    by (simp add: fetch_gets) (simp add: request_url_def BASE_URL_def API_KEY_def lit_def)
  show ?thesis by (intro conjI) fact+
qed

text \<open>
  The second word of the script, one character with the UTF-8 bytes E9 A3 9F: the URL of
  its request.
\<close>

theorem request_url_on_the_wire_witness:
  "list_all (\<lambda>c. \<not> reserved c \<and> c \<noteq> 37) (words ! 1) \<and>
   map wire_url (gets (fst (fetch_word_data world_offline 0 (words ! 1)))) =
     [lit ''https://api.wordnik.com/v4/word.json/%E9%A3%9F/definitions?api_key=YOUR_API_KEY'']"
proof -
  have h: "list_all (\<lambda>c. \<not> reserved c \<and> c \<noteq> 37) (words ! 1)"
    by (simp add: words_def reserved_def)
  have e: "BASE_URL @ spec_url_escape (words ! 1) @ lit ''/definitions?api_key='' @ API_KEY =
     lit ''https://api.wordnik.com/v4/word.json/%E9%A3%9F/definitions?api_key=YOUR_API_KEY''"
    by (simp add: words_def BASE_URL_def API_KEY_def lit_def spec_url_escape_def unreserved_def
        percent_encode_def utf8_def hex_digit_def)
  have "map wire_url (gets (fst (fetch_word_data world_offline 0 (words ! 1)))) =
     [BASE_URL @ spec_url_escape (words ! 1) @ lit ''/definitions?api_key='' @ API_KEY]"
    using h request_url_on_the_wire [of "words ! 1" world_offline 0] by blast
  then show ?thesis
    using h by (simp only: e simp_thms)
qed

subsection \<open>A body that is not JSON\<close>

text \<open>
  Claim C7, as the code has it. \<^verbatim>\<open>response.json()\<close> is called inside the \<^verbatim>\<open>try\<close>, so
  the class of the parse error decides. A parse error that is a \<^verbatim>\<open>RequestException\<close>
  (the \<^verbatim>\<open>JSONDecodeError\<close> of \<^verbatim>\<open>requests\<close> 2.27 and later) is caught like any
  request failure: the error line is printed and \<open>fetch_word_data\<close> returns. A parse
  error of any other class (the \<^verbatim>\<open>ValueError\<close> of older versions) is not caught: it
  leaves \<open>fetch_word_data\<close> and ends the program, nothing more being printed.
\<close>

theorem parse_error_caught_by_class:
  assumes "requests_get W k (request_url word) = Inr resp"
    and "raise_for_status resp = None"
    and "json resp = Inl ex"
  shows "(\<forall>e. ex = RequestException e \<longrightarrow>
            fetch_word_data W k word =
              ([Get (request_url word),
                Print (lit ''Error during API request for '' @ word @ lit '': '' @ e)], None)) \<and>
         ((\<forall>e. ex \<noteq> RequestException e) \<longrightarrow>
            fetch_word_data W k word = ([Get (request_url word)], Some ex) \<and>
            main_loop W k (word # ws) =
              ([Print (lit ''Fetching data for '' @ word @ lit ''...'' @ [10]), Get (request_url word)],
               Some ex))"
  using assms
  by (cases ex) (simp_all add: fetch_word_data_def try_body_def)

text \<open>A parse error outside the class: the program ends at the first word.\<close>

theorem parse_error_caught_by_class_witness:
  "requests_get (world_bad_json (ValueError (lit ''Expecting value''))) 0 (request_url (words ! 0)) =
     Inr (resp_bad_json (ValueError (lit ''Expecting value''))) \<and>
   raise_for_status (resp_bad_json (ValueError (lit ''Expecting value''))) = None \<and>
   json (resp_bad_json (ValueError (lit ''Expecting value''))) = Inl (ValueError (lit ''Expecting value'')) \<and>
   main_loop (world_bad_json (ValueError (lit ''Expecting value''))) 0 (words ! 0 # tl words) =
     ([Print (lit ''Fetching data for '' @ words ! 0 @ lit ''...'' @ [10]), Get (request_url (words ! 0))],
      Some (ValueError (lit ''Expecting value'')))"
  using parse_error_caught_by_class [of "world_bad_json (ValueError (lit ''Expecting value''))" 0 "words ! 0"
      "resp_bad_json (ValueError (lit ''Expecting value''))" "ValueError (lit ''Expecting value'')" "tl words"]
  by (simp add: world_bad_json_def resp_bad_json_def)

text \<open>
  A parse error inside the class is funnelled into the error branch, against the
  statement that no parse error is.
\<close>

theorem parse_error_counterexample:
  "fetch_word_data (world_bad_json (RequestException (lit ''Expecting value: line 1 column 1 (char 0)'')))
     0 (words ! 0) =
   ([Get (request_url (words ! 0)),
     Print (lit ''Error during API request for '' @ words ! 0 @ lit '': '' @
            lit ''Expecting value: line 1 column 1 (char 0)'')], None)"
  by (simp add: world_bad_json_def resp_bad_json_def fetch_word_data_def try_body_def)

subsection \<open>End to end\<close>

text \<open>
  Claim C8. For the word list with the one word apple and the response with the two
  records \<^verbatim>\<open>a fruit\<close> and \<^verbatim>\<open>a company\<close>, standard output is, line by line: the
  announcement, an empty line, the header, the two bullet lines, and the separator of
  50 equals signs. The run ends without an exception.
\<close>

theorem apple_end_to_end:
  assumes "requests_get W 0 (request_url (lit ''apple'')) =
             Inr \<lparr>raise_for_status = None, json = Inr apple_definitions\<rparr>"
  shows "stdout (fst (main_loop W 0 [lit ''apple''])) =
           lit ''Fetching data for apple...'' @ [10] @
           [10] @
           lit ''Definitions for apple:'' @ [10] @
           lit ''- a fruit'' @ [10] @
           lit ''- a company'' @ [10] @
           lit ''=================================================='' @ [10] \<and>
         snd (main_loop W 0 [lit ''apple'']) = None"
  using assms
  by (simp add: fetch_word_data_def try_body_def apple_definitions_def separator encodable_bullet)
     (simp add: encodable_def lit_def)

text \<open>The world that answers every request with the two records.\<close>

theorem apple_end_to_end_witness:
  "requests_get (world_ok apple_definitions) 0 (request_url (lit ''apple'')) =
     Inr \<lparr>raise_for_status = None, json = Inr apple_definitions\<rparr> \<and>
   stdout (fst (main_loop (world_ok apple_definitions) 0 [lit ''apple''])) =
     lit ''Fetching data for apple...'' @ [10] @
     [10] @
     lit ''Definitions for apple:'' @ [10] @
     lit ''- a fruit'' @ [10] @
     lit ''- a company'' @ [10] @
     lit ''=================================================='' @ [10]"
  using apple_end_to_end [of "world_ok apple_definitions"]
  by (simp add: world_ok_def resp_ok_def)

subsection \<open>Answers of another shape\<close>

text \<open>
  Claim C9, with the proviso the code needs. When the body is a non-empty list and one
  of its records has no text field, the records before it having one that standard
  output can encode, the \<^verbatim>\<open>KeyError\<close> is not caught: it leaves \<open>fetch_word_data\<close>
  after the header and the bullet lines of the records before, and ends the program.
  The run stops there whatever words remain: no separator, no pause, no request for
  another word.
\<close>

theorem missing_text_ends_program:
  assumes "requests_get W k (request_url word) = Inr resp"
    and "raise_for_status resp = None"
    and "json resp = Inr (PyList (pre @ PyDict kvs # post))"
    and "list_all2 (\<lambda>r v. \<exists>kvs. r = PyDict kvs \<and> map_of kvs (lit ''text'') = Some v \<and>
                            encodable (format W v)) pre vals"
    and "map_of kvs (lit ''text'') = None"
  shows "fetch_word_data W k word =
           (Get (request_url word) # Print (lit ''Definitions for '' @ word @ lit '':'') #
            map (\<lambda>v. Print (lit ''- '' @ format W v)) vals,
            Some (KeyError (lit ''text''))) \<and>
         main_loop W k (word # ws) =
           (Print (lit ''Fetching data for '' @ word @ lit ''...'' @ [10]) #
            Get (request_url word) # Print (lit ''Definitions for '' @ word @ lit '':'') #
            map (\<lambda>v. Print (lit ''- '' @ format W v)) vals,
            Some (KeyError (lit ''text'')))"
proof -
  have g: "getitem (PyDict kvs) (lit ''text'') = Inl (KeyError (lit ''text''))"
    using assms(5) by simp
  have f: "fetch_word_data W k word =
           (Get (request_url word) # Print (lit ''Definitions for '' @ word @ lit '':'') #
            map (\<lambda>v. Print (lit ''- '' @ format W v)) vals,
            Some (KeyError (lit ''text'')))"
    using assms(1-3) for_definitions_stops [OF assms(4) g, of post]
    by (simp add: fetch_word_data_def try_body_def)
  show ?thesis
    by (simp add: f)
qed

text \<open>The five words: the second record for the first word has no text field.\<close>

theorem missing_text_ends_program_witness:
  "requests_get (world_ok (PyList [PyDict [(lit ''text'', PyStr (lit ''a fruit''))], PyDict []])) 0
     (request_url (words ! 0)) =
     Inr (resp_ok (PyList [PyDict [(lit ''text'', PyStr (lit ''a fruit''))], PyDict []])) \<and>
   main_loop (world_ok (PyList [PyDict [(lit ''text'', PyStr (lit ''a fruit''))], PyDict []])) 0 words =
     ([Print (lit ''Fetching data for '' @ words ! 0 @ lit ''...'' @ [10]),
       Get (request_url (words ! 0)), Print (lit ''Definitions for '' @ words ! 0 @ lit '':''),
       Print (lit ''- '' @ lit ''a fruit'')],
      Some (KeyError (lit ''text'')))"
  using missing_text_ends_program
      [where W = "world_ok (PyList [PyDict [(lit ''text'', PyStr (lit ''a fruit''))], PyDict []])"
         and k = 0 and word = "words ! 0"
         and resp = "resp_ok (PyList [PyDict [(lit ''text'', PyStr (lit ''a fruit''))], PyDict []])"
         and pre = "[PyDict [(lit ''text'', PyStr (lit ''a fruit''))]]" and kvs = "[]" and post = "[]"
         and vals = "[PyStr (lit ''a fruit'')]" and ws = "tl words"]
  by (simp add: world_ok_def resp_ok_def words_def encodable_def lit_def)

text \<open>
  Without the proviso the statement fails. The second record has no text field, but the
  text of the first is the one character U+D800: the \<^verbatim>\<open>print\<close> of its bullet raises
  \<^verbatim>\<open>UnicodeEncodeError\<close>. The program ends before the key is looked up, and the
  bullet line of the record before the one without text is not printed.
\<close>

theorem missing_text_counterexample:
  "main_loop (world_ok (PyList [PyDict [(lit ''text'', PyStr [55296])], PyDict []])) 0 words =
     ([Print (lit ''Fetching data for '' @ words ! 0 @ lit ''...'' @ [10]),
       Get (request_url (words ! 0)), Print (lit ''Definitions for '' @ words ! 0 @ lit '':'')],
      Some UnicodeEncodeError)"
  by (simp add: world_ok_def resp_ok_def words_def fetch_word_data_def try_body_def encodable_def lit_def)

text \<open>
  Claim C10. The branch is chosen by the truth value of the decoded body. Every falsy
  body, among them \<^verbatim>\<open>null\<close>, the empty list, the empty object, the empty string,
  \<open>0\<close> and \<^verbatim>\<open>false\<close>, gives the message that no definitions were found. Every truthy
  body that is not a list enters the other branch unchecked: the header is printed,
  and the iteration, or the subscription of its first element, raises a \<^verbatim>\<open>TypeError\<close>
  that is not caught.
\<close>

theorem branch_by_truthiness:
  assumes "requests_get W k (request_url word) = Inr resp"
    and "raise_for_status resp = None"
    and "json resp = Inr data"
  shows "(\<not> truthy data \<longrightarrow>
            fetch_word_data W k word =
              ([Get (request_url word), Print (lit ''No definitions found for '' @ word @ lit ''.'')], None)) \<and>
         (data = PyNone \<or> data = PyList [] \<or> data = PyDict [] \<or> data = PyStr [] \<or> data = PyInt 0 \<or>
          data = PyBool False \<longrightarrow> \<not> truthy data) \<and>
         (truthy data \<and> (\<forall>xs. data \<noteq> PyList xs) \<longrightarrow>
            fetch_word_data W k word =
              ([Get (request_url word), Print (lit ''Definitions for '' @ word @ lit '':'')], Some TypeError))"
proof -
  have a: "\<not> truthy data \<longrightarrow>
            fetch_word_data W k word =
              ([Get (request_url word), Print (lit ''No definitions found for '' @ word @ lit ''.'')], None)"
    using assms by (simp add: fetch_word_data_def try_body_def)
  have b: "data = PyNone \<or> data = PyList [] \<or> data = PyDict [] \<or> data = PyStr [] \<or> data = PyInt 0 \<or>
          data = PyBool False \<longrightarrow> \<not> truthy data"
    by auto
  have c: "truthy data \<and> (\<forall>xs. data \<noteq> PyList xs) \<longrightarrow>
            fetch_word_data W k word =
              ([Get (request_url word), Print (lit ''Definitions for '' @ word @ lit '':'')], Some TypeError)"
  proof (cases data)
    case (PyStr s)
    then show ?thesis using assms
      by (cases s) (simp_all add: fetch_word_data_def try_body_def)
  next
    case (PyDict kvs)
    then show ?thesis using assms
      by (cases kvs) (simp_all add: fetch_word_data_def try_body_def)
  qed (use assms in \<open>simp_all add: fetch_word_data_def try_body_def\<close>)
  show ?thesis by (intro conjI) fact+
qed

text \<open>An object with a message instead of a list of records.\<close>

theorem branch_by_truthiness_witness:
  "requests_get (world_ok (PyDict [(lit ''message'', PyStr (lit ''not found''))])) 0 (request_url (words ! 0)) =
     Inr (resp_ok (PyDict [(lit ''message'', PyStr (lit ''not found''))])) \<and>
   truthy (PyDict [(lit ''message'', PyStr (lit ''not found''))]) \<and>
   fetch_word_data (world_ok (PyDict [(lit ''message'', PyStr (lit ''not found''))])) 0 (words ! 0) =
     ([Get (request_url (words ! 0)), Print (lit ''Definitions for '' @ words ! 0 @ lit '':'')], Some TypeError)"
  using branch_by_truthiness [of "world_ok (PyDict [(lit ''message'', PyStr (lit ''not found''))])" 0 "words ! 0"
      "resp_ok (PyDict [(lit ''message'', PyStr (lit ''not found''))])" "PyDict [(lit ''message'', PyStr (lit ''not found''))]"]
  by (simp add: world_ok_def resp_ok_def)

end
